theory Spec2Isabelle
  imports Main
begin

section \<open>The XNNPACK delegate backend (XNNPACKBackend.cpp)\<close>

text \<open>
  The file under verification is the class \<open>XnnpackBackend\<close> of
  \<open>backends/xnnpack/runtime/XNNPACKBackend.cpp\<close>: a constructor, the four methods
  \<open>is_available\<close>, \<open>init\<close>, \<open>execute\<close> and \<open>destroy\<close>, the field \<open>workspace_\<close>, and the
  three namespace-scope variables that register the backend.

  Everything the class calls lives outside the file (the XNNPACK library, the runtime's
  allocator, \<open>FreeableBuffer\<close>, \<open>XNNCompiler\<close>, \<open>XNNExecutor\<close>, the backend registry).
  The embedding keeps those collaborators as parameters: a record of functions over an
  abstract external state \<open>'e\<close>. Every call the source makes is also appended to a
  trace, in program order, so that "is called exactly once", "is never called" and "in
  this order" are statements about the trace.
\<close>

subsection \<open>Values\<close>

text \<open>A C++ pointer: \<open>None\<close> is \<open>nullptr\<close>, \<open>Some a\<close> the address \<open>a\<close>.\<close>

type_synonym ptr = "nat option"

text \<open>\<open>xnn_workspace_t\<close> is a pointer type of the XNNPACK library.\<close>

type_synonym xnn_workspace_t = ptr

text \<open>
  \<open>xnn_status\<close> (XNNPACK) and \<open>Error\<close> (runtime/core/error.h) are enumerations declared
  outside the file. The source names \<open>xnn_status_success\<close>, \<open>Error::Ok\<close> and
  \<open>Error::Internal\<close>; every other enumerator is kept by its numeric code.
\<close>

datatype xnn_status = xnn_status_success | xnn_status_other nat

datatype Error = Ok | Internal | OtherError nat

text \<open>\<open>Result<DelegateHandle*>\<close>: an error (\<open>Inl\<close>) or a handle (\<open>Inr\<close>).\<close>

type_synonym Result_DelegateHandle = "Error + ptr"

text \<open>The class has one field, \<open>xnn_workspace_t workspace_\<close> (line 137); the record
  field is written \<open>workspace\<close>, a name cannot end with an underscore here.\<close>

record XnnpackBackend =
  workspace :: xnn_workspace_t

text \<open>\<open>BackendInitContext\<close>: the source reads only \<open>get_runtime_allocator()\<close> of it.\<close>

record BackendInitContext =
  get_runtime_allocator :: ptr

text \<open>\<open>CompileSpec\<close>: a key and a value buffer; \<open>init\<close> accepts the list and never reads it.\<close>

type_synonym CompileSpec = "string \<times> nat list"

text \<open>\<open>Backend\<close>: the registration record \<open>{name, pointer to the adapter}\<close> (line 144).\<close>

record Backend =
  backend_name :: string
  backend_interface :: ptr

subsection \<open>The trace of calls\<close>

datatype LogLevel = LogDebug | LogError

datatype LogArg = NoArg | StatusArg xnn_status | ErrorArg Error | PtrArg ptr

text \<open>
  One event per call the file makes to a collaborator. \<open>Xnn_release_workspace\<close> is the
  library call that destroys a workspace; the file contains no call to it, and the event
  stands in the alphabet so that its absence from a trace can be stated.
\<close>

datatype event =
    Xnn_initialize
  | Xnn_create_workspace
  | Xnn_release_workspace xnn_workspace_t
  | AllocateInstance ptr
  | PlacementNew ptr
  | CompileModel ptr nat ptr ptr xnn_workspace_t
  | Free ptr
  | Destructor ptr
  | PrepareArgs ptr ptr
  | Forward ptr ptr
  | ResizeOutputs ptr ptr
  | PrintAvgOpTimings ptr
  | RegisterBackend Backend
  | ET_LOG LogLevel string LogArg

subsection \<open>The collaborators\<close>

text \<open>
  Each field is one function or macro the source uses and does not define; \<open>'e\<close> is
  the state of everything outside the file (library, arena, buffers, executors).
  \<^item> \<open>xnn_create_workspace\<close> has an out-parameter: it is given the content of
    \<open>workspace_\<close> before the call and returns the content after it.
  \<^item> \<open>allocation_failed\<close> is the error that the macro
    \<open>ET_ALLOCATE_INSTANCE_OR_RETURN_ERROR\<close> returns when the allocator answers
    \<open>nullptr\<close>. The macro fixes that error itself (it takes no error argument), and its
    definition is not part of the file, so the value is a parameter.
  \<^item> \<open>ENABLE_XNNPACK_PROFILING\<close> is the build flag tested by \<open>#ifdef\<close> in \<open>destroy\<close>.
\<close>

record 'e externals =
  xnn_initialize :: "'e \<Rightarrow> xnn_status \<times> 'e"
  xnn_create_workspace :: "xnn_workspace_t \<Rightarrow> 'e \<Rightarrow> (xnn_status \<times> xnn_workspace_t) \<times> 'e"
  allocateInstance :: "ptr \<Rightarrow> 'e \<Rightarrow> ptr \<times> 'e"
  allocation_failed :: Error
  XNNExecutor_new :: "ptr \<Rightarrow> 'e \<Rightarrow> 'e"
  XNNExecutor_delete :: "ptr \<Rightarrow> 'e \<Rightarrow> 'e"
  buffer_data :: "ptr \<Rightarrow> 'e \<Rightarrow> ptr"
  buffer_size :: "ptr \<Rightarrow> 'e \<Rightarrow> nat"
  buffer_Free :: "ptr \<Rightarrow> 'e \<Rightarrow> 'e"
  compileModel :: "ptr \<Rightarrow> nat \<Rightarrow> ptr \<Rightarrow> ptr \<Rightarrow> xnn_workspace_t \<Rightarrow> 'e \<Rightarrow> Error \<times> 'e"
  prepare_args :: "ptr \<Rightarrow> ptr \<Rightarrow> 'e \<Rightarrow> Error \<times> 'e"
  forward :: "ptr \<Rightarrow> ptr \<Rightarrow> 'e \<Rightarrow> Error \<times> 'e"
  resize_outputs :: "ptr \<Rightarrow> ptr \<Rightarrow> 'e \<Rightarrow> Error \<times> 'e"
  print_avg_op_timings :: "ptr \<Rightarrow> 'e \<Rightarrow> 'e"
  register_backend :: "Backend \<Rightarrow> 'e \<Rightarrow> Error \<times> 'e"
  ENABLE_XNNPACK_PROFILING :: bool

text \<open>The state a method runs in: the external state and the trace so far.\<close>

record 'e state =
  ext :: 'e
  trace :: "event list"

definition emit :: "event \<Rightarrow> 'e state \<Rightarrow> 'e state" where
  "emit ev s = s\<lparr>trace := trace s @ [ev]\<rparr>"

text \<open>A call that returns a value, and a call that returns nothing.\<close>

definition call :: "event \<Rightarrow> ('e \<Rightarrow> 'a \<times> 'e) \<Rightarrow> 'e state \<Rightarrow> 'a \<times> 'e state" where
  "call ev f s = (case f (ext s) of (r, e') \<Rightarrow> (r, emit ev (s\<lparr>ext := e'\<rparr>)))"

definition call_void :: "event \<Rightarrow> ('e \<Rightarrow> 'e) \<Rightarrow> 'e state \<Rightarrow> 'e state" where
  "call_void ev f s = emit ev (s\<lparr>ext := f (ext s)\<rparr>)"

text \<open>The events a run added to the trace.\<close>

definition events_since :: "'e state \<Rightarrow> 'e state \<Rightarrow> event list" where
  "events_since s s' = drop (length (trace s)) (trace s')"

subsection \<open>The constructor (lines 25-48)\<close>

text \<open>
  The constructor has no member initializer, so \<open>workspace_\<close> starts with whatever the
  storage held: \<open>this0\<close> is the object before the constructor body runs.
\<close>

definition XnnpackBackend_ctor ::
  "'e externals \<Rightarrow> XnnpackBackend \<Rightarrow> 'e state \<Rightarrow> XnnpackBackend \<times> 'e state" where
  "XnnpackBackend_ctor X this0 s =
     (case call Xnn_initialize (xnn_initialize X) s of (status, s1) \<Rightarrow>
        if status \<noteq> xnn_status_success then
          (this0,
           emit (ET_LOG LogError ''Failed to initialize, XNNPACK status: 0x%x''
                   (StatusArg status)) s1)
        else
          (case call Xnn_create_workspace (xnn_create_workspace X (workspace this0)) s1 of
             ((status', ws), s2) \<Rightarrow>
               if status' \<noteq> xnn_status_success then
                 (this0\<lparr>workspace := None\<rparr>,
                  emit (ET_LOG LogError ''Failed to create XNN workspace, XNNPACK status: 0x%x''
                          (StatusArg status')) s2)
               else
                 (this0\<lparr>workspace := ws\<rparr>,
                  emit (ET_LOG LogDebug ''Created XNN workspace: %p'' (PtrArg ws)) s2)))"

subsection \<open>The destructor (line 23)\<close>

text \<open>
  \<open>~XnnpackBackend() = default\<close>: the only member is a raw pointer, so destroying the
  adapter calls nothing; the workspace it points to is left as it is.
\<close>

definition XnnpackBackend_dtor :: "'e externals \<Rightarrow> XnnpackBackend \<Rightarrow> 'e state \<Rightarrow> 'e state" where
  "XnnpackBackend_dtor X this s = s"

subsection \<open>is_available (lines 50-52)\<close>

definition is_available :: "'e externals \<Rightarrow> XnnpackBackend \<Rightarrow> 'e state \<Rightarrow> bool \<times> 'e state" where
  "is_available X this s =
     (case call Xnn_initialize (xnn_initialize X) s of (status, s1) \<Rightarrow>
        (xnn_status_success = status, s1))"

subsection \<open>init (lines 54-88)\<close>

text \<open>
  \<open>ET_ALLOCATE_INSTANCE_OR_RETURN_ERROR\<close> returns from \<open>init\<close> when the allocator
  answers \<open>nullptr\<close>; \<open>ET_CHECK_OR_RETURN_ERROR(cond, Internal, msg)\<close> logs \<open>msg\<close> and
  returns \<open>Error::Internal\<close> from \<open>init\<close> when \<open>cond\<close> is false.
\<close>

definition init ::
  "'e externals \<Rightarrow> XnnpackBackend \<Rightarrow> BackendInitContext \<Rightarrow> ptr \<Rightarrow> CompileSpec list \<Rightarrow>
     'e state \<Rightarrow> Result_DelegateHandle \<times> 'e state" where
  "init X this context processed compile_specs s =
     (case call (AllocateInstance (get_runtime_allocator context))
             (allocateInstance X (get_runtime_allocator context)) s of
        (executor, s1) \<Rightarrow>
          if executor = None then (Inl (allocation_failed X), s1)
          else
            let s2 = call_void (PlacementNew executor) (XNNExecutor_new X executor) s1 in
            if \<not> (workspace this \<noteq> None) then
              (Inl Internal, emit (ET_LOG LogError ''Failed to create XNN workspace'' NoArg) s2)
            else
              (case call (CompileModel (buffer_data X processed (ext s2))
                            (buffer_size X processed (ext s2)) executor
                            (get_runtime_allocator context) (workspace this))
                      (compileModel X (buffer_data X processed (ext s2))
                            (buffer_size X processed (ext s2)) executor
                            (get_runtime_allocator context) (workspace this)) s2 of
                 (err, s3) \<Rightarrow>
                   let s4 = call_void (Free processed) (buffer_Free X processed) s3 in
                   if err \<noteq> Ok then
                     let s5 = call_void (Destructor executor) (XNNExecutor_delete X executor) s4;
                         s6 = emit (ET_LOG LogError ''XNNCompiler::compileModel failed: 0x%x''
                                      (ErrorArg err)) s5
                     in (Inl err, s6)
                   else (Inr executor, s4)))"

subsection \<open>execute (lines 90-112)\<close>

text \<open>
  \<open>handle\<close> is cast and dereferenced without a check: the executor methods receive the
  pointer as it came. \<open>context\<close> and \<open>args\<close> are passed on by address.
\<close>

definition execute ::
  "'e externals \<Rightarrow> XnnpackBackend \<Rightarrow> ptr \<Rightarrow> ptr \<Rightarrow> ptr \<Rightarrow> 'e state \<Rightarrow> Error \<times> 'e state" where
  "execute X this context handle args s =
     (let executor = handle in
      case call (PrepareArgs executor args) (prepare_args X executor args) s of
        (err, s1) \<Rightarrow>
          if err \<noteq> Ok then (err, s1)
          else
            (case call (Forward executor context) (forward X executor context) s1 of
               (err', s2) \<Rightarrow>
                 if err' \<noteq> Ok then (err', s2)
                 else call (ResizeOutputs executor args) (resize_outputs X executor args) s2))"

subsection \<open>destroy (lines 114-124)\<close>

definition destroy :: "'e externals \<Rightarrow> XnnpackBackend \<Rightarrow> ptr \<Rightarrow> 'e state \<Rightarrow> 'e state" where
  "destroy X this handle s =
     (if handle \<noteq> None then
        let executor = handle;
            s1 = (if ENABLE_XNNPACK_PROFILING X
                  then call_void (PrintAvgOpTimings executor) (print_avg_op_timings X executor) s
                  else s)
        in call_void (Destructor executor) (XNNExecutor_delete X executor) s1
      else s)"

subsection \<open>Registration (lines 142-146)\<close>

text \<open>
  The three namespace-scope variables \<open>cls\<close>, \<open>backend\<close> and \<open>success_with_compiler\<close>,
  with the state the methods run in.
\<close>

record 'e process =
  cls :: XnnpackBackend
  backend :: Backend
  success_with_compiler :: Error
  state :: "'e state"

text \<open>
  Dynamic initialization of the translation unit, in declaration order. \<open>cls\<close> has static
  storage, which is zero-initialized before its constructor runs; \<open>cls_addr\<close> is the
  address \<open>&cls\<close>.
\<close>

definition module_init :: "'e externals \<Rightarrow> nat \<Rightarrow> 'e state \<Rightarrow> 'e process" where
  "module_init X cls_addr s =
     (case XnnpackBackend_ctor X \<lparr>workspace = None\<rparr> s of (c, s1) \<Rightarrow>
        let b = \<lparr>backend_name = ''XnnpackBackend'', backend_interface = Some cls_addr\<rparr> in
        case call (RegisterBackend b) (register_backend X b) s1 of (r, s2) \<Rightarrow>
          \<lparr>cls = c, backend = b, success_with_compiler = r, state = s2\<rparr>)"

text \<open>
  What the host can do with the registered adapter afterwards: call one of its four
  methods on \<open>cls\<close>. The methods are \<open>const\<close>; they receive \<open>cls\<close> and the state.
\<close>

datatype host_call =
    IsAvailable
  | Init BackendInitContext ptr "CompileSpec list"
  | Execute ptr ptr ptr
  | Destroy ptr

fun host_step :: "'e externals \<Rightarrow> host_call \<Rightarrow> 'e process \<Rightarrow> 'e process" where
  "host_step X IsAvailable p = p\<lparr>state := snd (is_available X (cls p) (state p))\<rparr>"
| "host_step X (Init context processed compile_specs) p =
     p\<lparr>state := snd (init X (cls p) context processed compile_specs (state p))\<rparr>"
| "host_step X (Execute context handle args) p =
     p\<lparr>state := snd (execute X (cls p) context handle args (state p))\<rparr>"
| "host_step X (Destroy handle) p = p\<lparr>state := destroy X (cls p) handle (state p)\<rparr>"

definition host_run :: "'e externals \<Rightarrow> host_call list \<Rightarrow> 'e process \<Rightarrow> 'e process" where
  "host_run X calls p = fold (host_step X) calls p"

subsection \<open>Reading the trace\<close>

fun is_CompileModel :: "event \<Rightarrow> bool" where
  "is_CompileModel (CompileModel d n ex a ws) = True"
| "is_CompileModel _ = False"


text \<open>
  What a method call on an adapter with workspace \<open>w\<close> may add to the trace, event by
  event: a compiler call only with \<open>w\<close>; no workspace creation, no workspace release and
  no registration; the other calls of the four methods.
\<close>

fun host_event_ok :: "xnn_workspace_t \<Rightarrow> event \<Rightarrow> bool" where
  "host_event_ok w Xnn_initialize = True"
| "host_event_ok w Xnn_create_workspace = False"
| "host_event_ok w (Xnn_release_workspace ws) = False"
| "host_event_ok w (AllocateInstance a) = True"
| "host_event_ok w (PlacementNew ex) = True"
| "host_event_ok w (CompileModel d n ex a ws) = (ws = w)"
| "host_event_ok w (Free b) = True"
| "host_event_ok w (Destructor ex) = True"
| "host_event_ok w (PrepareArgs ex args) = True"
| "host_event_ok w (Forward ex c) = True"
| "host_event_ok w (ResizeOutputs ex args) = True"
| "host_event_ok w (PrintAvgOpTimings ex) = True"
| "host_event_ok w (RegisterBackend b) = False"
| "host_event_ok w (ET_LOG lvl msg arg) = True"

subsection \<open>A concrete environment\<close>

text \<open>
  Collaborators over a counter: the allocator hands out the next address, the library and
  the compiler answer as told, the executor methods succeed.
\<close>

definition sample_env :: "xnn_status \<Rightarrow> xnn_status \<Rightarrow> Error \<Rightarrow> nat externals" where
  "sample_env lib_status ws_status compile_result =
     \<lparr>xnn_initialize = (\<lambda>e. (lib_status, e)),
      xnn_create_workspace =
        (\<lambda>old e. ((ws_status, if ws_status = xnn_status_success then Some 100 else old), e)),
      allocateInstance = (\<lambda>a e. (Some (Suc e), Suc e)),
      allocation_failed = OtherError 33,
      XNNExecutor_new = (\<lambda>p e. e),
      XNNExecutor_delete = (\<lambda>p e. e),
      buffer_data = (\<lambda>p e. Some 7),
      buffer_size = (\<lambda>p e. 16),
      buffer_Free = (\<lambda>p e. e),
      compileModel = (\<lambda>d n ex a ws e. (compile_result, e)),
      prepare_args = (\<lambda>ex args e. (Ok, e)),
      forward = (\<lambda>ex c e. (Ok, e)),
      resize_outputs = (\<lambda>ex args e. (Ok, e)),
      print_avg_op_timings = (\<lambda>ex e. e),
      register_backend = (\<lambda>b e. (Ok, e)),
      ENABLE_XNNPACK_PROFILING = False\<rparr>"

text \<open>The same with an exhausted arena: the allocator answers \<open>nullptr\<close>.\<close>

definition exhausted :: "nat externals \<Rightarrow> nat externals" where
  "exhausted X = X\<lparr>allocateInstance := (\<lambda>a e. (None, e))\<rparr>"

definition sample_context :: BackendInitContext where
  "sample_context = \<lparr>get_runtime_allocator = Some 1\<rparr>"

definition sample_state :: "nat state" where
  "sample_state = \<lparr>ext = 0, trace = []\<rparr>"

section \<open>Properties\<close>

subsection \<open>Calls and the trace\<close>

lemma call_eq:
  "call ev f s = (fst (f (ext s)), \<lparr>ext = snd (f (ext s)), trace = trace s @ [ev]\<rparr>)"
  by (simp add: call_def emit_def split: prod.splits)

lemma call_void_eq: "call_void ev f s = \<lparr>ext = f (ext s), trace = trace s @ [ev]\<rparr>"
  by (simp add: call_void_def emit_def)

lemma emit_eq: "emit ev s = \<lparr>ext = ext s, trace = trace s @ [ev]\<rparr>"
  by (simp add: emit_def)

lemmas step_eqs = call_eq call_void_eq emit_eq

subsection \<open>init, path by path\<close>

lemma init_result:
  "fst (init X this ctx processed compile_specs s) =
     (let a = get_runtime_allocator ctx;
          r = allocateInstance X a (ext s);
          e2 = XNNExecutor_new X (fst r) (snd r);
          err = fst (compileModel X (buffer_data X processed e2) (buffer_size X processed e2)
                       (fst r) a (workspace this) e2)
      in if fst r = None then Inl (allocation_failed X)
         else if workspace this = None then Inl Internal
         else if err \<noteq> Ok then Inl err
         else Inr (fst r))"
  by (simp add: init_def step_eqs Let_def)

lemma init_events:
  "events_since s (snd (init X this ctx processed compile_specs s)) =
     (let a = get_runtime_allocator ctx;
          r = allocateInstance X a (ext s);
          e2 = XNNExecutor_new X (fst r) (snd r);
          d = buffer_data X processed e2;
          n = buffer_size X processed e2;
          err = fst (compileModel X d n (fst r) a (workspace this) e2)
      in if fst r = None then [AllocateInstance a]
         else if workspace this = None then
           [AllocateInstance a, PlacementNew (fst r),
            ET_LOG LogError ''Failed to create XNN workspace'' NoArg]
         else if err \<noteq> Ok then
           [AllocateInstance a, PlacementNew (fst r),
            CompileModel d n (fst r) a (workspace this), Free processed, Destructor (fst r),
            ET_LOG LogError ''XNNCompiler::compileModel failed: 0x%x'' (ErrorArg err)]
         else
           [AllocateInstance a, PlacementNew (fst r),
            CompileModel d n (fst r) a (workspace this), Free processed])"
proof -
  obtain ex e1 where r: "allocateInstance X (get_runtime_allocator ctx) (ext s) = (ex, e1)"
    by force
  show ?thesis
  proof (cases "ex = None")
    case True
    with r show ?thesis
      by (simp add: init_def step_eqs events_since_def)
  next
    case False
    note ex = this
    show ?thesis
    proof (cases "workspace this = None")
      case True
      with r ex show ?thesis
        by (simp add: init_def step_eqs events_since_def Let_def)
    next
      case False
      obtain err e3 where
        "compileModel X (buffer_data X processed (XNNExecutor_new X ex e1))
           (buffer_size X processed (XNNExecutor_new X ex e1)) ex (get_runtime_allocator ctx)
           (workspace this) (XNNExecutor_new X ex e1) = (err, e3)"
        by force
      with r ex False show ?thesis
        by (simp add: init_def step_eqs events_since_def Let_def)
    qed
  qed
qed

lemma init_trace:
  "trace (snd (init X this ctx processed compile_specs s)) =
     trace s @ events_since s (snd (init X this ctx processed compile_specs s))"
  by (simp add: init_def step_eqs events_since_def Let_def)

subsection \<open>The other methods and the constructor\<close>

lemma execute_events:
  "events_since s (snd (execute X this ctx handle args s)) =
     (let r1 = prepare_args X handle args (ext s);
          r2 = forward X handle ctx (snd r1)
      in if fst r1 \<noteq> Ok then [PrepareArgs handle args]
         else if fst r2 \<noteq> Ok then [PrepareArgs handle args, Forward handle ctx]
         else [PrepareArgs handle args, Forward handle ctx, ResizeOutputs handle args])"
  by (simp add: execute_def step_eqs events_since_def Let_def)

lemma execute_trace:
  "trace (snd (execute X this ctx handle args s)) =
     trace s @ events_since s (snd (execute X this ctx handle args s))"
  by (simp add: execute_def step_eqs events_since_def Let_def)

lemma destroy_events:
  "events_since s (destroy X this handle s) =
     (if handle = None then []
      else if ENABLE_XNNPACK_PROFILING X then [PrintAvgOpTimings handle, Destructor handle]
      else [Destructor handle])"
  by (simp add: destroy_def step_eqs events_since_def Let_def)

lemma destroy_trace:
  "trace (destroy X this handle s) = trace s @ events_since s (destroy X this handle s)"
  by (simp add: destroy_def step_eqs events_since_def Let_def)

lemma is_available_result:
  "fst (is_available X this s) = (fst (xnn_initialize X (ext s)) = xnn_status_success)"
  by (auto simp add: is_available_def step_eqs)

lemma is_available_state:
  "snd (is_available X this s) =
     \<lparr>ext = snd (xnn_initialize X (ext s)), trace = trace s @ [Xnn_initialize]\<rparr>"
  by (simp add: is_available_def step_eqs)

lemma ctor_workspace:
  "workspace (fst (XnnpackBackend_ctor X this0 s)) =
     (let r1 = xnn_initialize X (ext s);
          r2 = xnn_create_workspace X (workspace this0) (snd r1)
      in if fst r1 \<noteq> xnn_status_success then workspace this0
         else if fst (fst r2) \<noteq> xnn_status_success then None
         else snd (fst r2))"
  by (simp add: XnnpackBackend_ctor_def step_eqs Let_def case_prod_beta)



subsection \<open>Sequences of host calls\<close>

lemma cls_host_step: "cls (host_step X c p) = cls p"
  by (cases c) simp_all

lemma cls_host_run: "cls (host_run X calls p) = cls p"
  unfolding host_run_def by (induction calls arbitrary: p) (simp_all add: cls_host_step)





lemma host_step_events:
  "\<exists>xs. trace (state (host_step X c p)) = trace (state p) @ xs \<and>
        list_all (host_event_ok (workspace (cls p))) xs"
proof (cases c)
  case IsAvailable
  then show ?thesis by (simp add: is_available_state)
next
  case (Init ctx processed compile_specs)
  have "list_all (host_event_ok (workspace (cls p)))
          (events_since (state p) (snd (init X (cls p) ctx processed compile_specs (state p))))"
    by (simp add: init_events Let_def)
  with Init show ?thesis
    using init_trace [of X "cls p" ctx processed compile_specs "state p"] by auto
next
  case (Execute ctx handle args)
  have "list_all (host_event_ok (workspace (cls p)))
          (events_since (state p) (snd (execute X (cls p) ctx handle args (state p))))"
    by (simp add: execute_events Let_def)
  with Execute show ?thesis
    using execute_trace [of X "cls p" ctx handle args "state p"] by auto
next
  case (Destroy handle)
  have "list_all (host_event_ok (workspace (cls p)))
          (events_since (state p) (destroy X (cls p) handle (state p)))"
    by (simp add: destroy_events)
  with Destroy show ?thesis
    using destroy_trace [of X "cls p" handle "state p"] by auto
qed

lemma host_run_events:
  "\<exists>xs. trace (state (host_run X calls p)) = trace (state p) @ xs \<and>
        list_all (host_event_ok (workspace (cls p))) xs"
proof (induction calls arbitrary: p)
  case Nil
  then show ?case by (simp add: host_run_def)
next
  case (Cons c calls)
  obtain xs where xs: "trace (state (host_step X c p)) = trace (state p) @ xs"
    "list_all (host_event_ok (workspace (cls p))) xs"
    using host_step_events by blast
  obtain ys where ys:
    "trace (state (host_run X calls (host_step X c p))) = trace (state (host_step X c p)) @ ys"
    "list_all (host_event_ok (workspace (cls (host_step X c p)))) ys"
    using Cons.IH by blast
  have "host_run X (c # calls) p = host_run X calls (host_step X c p)"
    by (simp add: host_run_def)
  with xs ys show ?case by (simp add: cls_host_step)
qed

lemma host_run_events_since:
  "list_all (host_event_ok (workspace (cls p)))
     (events_since (state p) (state (host_run X calls p)))"
proof -
  obtain xs where "trace (state (host_run X calls p)) = trace (state p) @ xs"
    and "list_all (host_event_ok (workspace (cls p))) xs"
    using host_run_events by blast
  then show ?thesis by (simp add: events_since_def)
qed

lemma host_event_ok_no_create:
  "list_all (host_event_ok w) xs \<Longrightarrow> Xnn_create_workspace \<notin> set xs"
  by (auto simp add: list_all_iff)

lemma host_event_ok_no_release:
  "list_all (host_event_ok w) xs \<Longrightarrow> Xnn_release_workspace ws \<notin> set xs"
  by (auto simp add: list_all_iff)


lemma host_event_ok_compile:
  "list_all (host_event_ok w) xs \<Longrightarrow> CompileModel d n ex a ws \<in> set xs \<Longrightarrow> ws = w"
  by (auto simp add: list_all_iff)

section \<open>The claims\<close>

subsection \<open>Release of the processed payload\<close>

lemma init_Free_count:
  "count_list (events_since s (snd (init X this ctx processed compile_specs s))) (Free processed) =
     (if fst (allocateInstance X (get_runtime_allocator ctx) (ext s)) = None \<or> workspace this = None
      then 0 else 1)"
  by (simp add: init_events Let_def)

text \<open>
  C1. The claim: on every path of \<open>init\<close> (success, workspace absent, allocation failure,
  compiler failure) \<open>Free\<close> is called on the processed payload exactly once before
  \<open>init\<close> returns. The code calls \<open>Free\<close> once on the two paths that reach the compiler
  (lemma \<open>init_Free_count\<close>); both early returns leave before line 76. Evaluated here:
  with the workspace absent \<open>init\<close> returns \<open>Internal\<close> and the trace has no \<open>Free\<close>;
  with the arena exhausted it returns the allocation error and the trace has no \<open>Free\<close>.
\<close>

theorem init_early_return_skips_Free:
  "fst (init (sample_env xnn_status_success xnn_status_success Ok) \<lparr>workspace = None\<rparr>
         sample_context (Some 2) [] sample_state) = Inl Internal
   \<and> count_list (trace (snd (init (sample_env xnn_status_success xnn_status_success Ok)
         \<lparr>workspace = None\<rparr> sample_context (Some 2) [] sample_state))) (Free (Some 2)) = 0
   \<and> fst (init (exhausted (sample_env xnn_status_success xnn_status_success Ok))
         \<lparr>workspace = Some 100\<rparr> sample_context (Some 2) [] sample_state) = Inl (OtherError 33)
   \<and> count_list (trace (snd (init (exhausted (sample_env xnn_status_success xnn_status_success Ok))
         \<lparr>workspace = Some 100\<rparr> sample_context (Some 2) [] sample_state))) (Free (Some 2)) = 0"
  by (simp add: init_def step_eqs sample_env_def exhausted_def sample_context_def
      sample_state_def Let_def)

subsection \<open>Destruction of the handle when init fails\<close>

lemma init_Destructor_count:
  "count_list (events_since s (snd (init X this ctx processed compile_specs s)))
     (Destructor (fst (allocateInstance X (get_runtime_allocator ctx) (ext s)))) =
     (if fst (init X this ctx processed compile_specs s) =
           Inr (fst (allocateInstance X (get_runtime_allocator ctx) (ext s)))
         \<or> fst (allocateInstance X (get_runtime_allocator ctx) (ext s)) = None
         \<or> workspace this = None
      then 0 else 1)"
  by (simp add: init_events init_result Let_def)

text \<open>
  C2. The claim: whenever \<open>init\<close> fails after the handle was placement-constructed
  (workspace check or compiler failure), the handle's destructor runs exactly once
  before \<open>init\<close> returns. On the compiler-failure path it does (lemma
  \<open>init_Destructor_count\<close>, lines 78-86). On the workspace-absent path the handle has
  been constructed at line 65 and \<open>init\<close> returns at line 67 without the destructor:
  evaluated here, the trace holds one \<open>PlacementNew\<close> and no \<open>Destructor\<close>, and the
  caller receives an error, so no handle to destroy later.
\<close>

theorem init_workspace_absent_skips_destructor:
  "init (sample_env xnn_status_success xnn_status_success Ok) \<lparr>workspace = None\<rparr>
     sample_context (Some 2) [] sample_state =
     (Inl Internal,
      \<lparr>ext = 1,
       trace = [AllocateInstance (Some 1), PlacementNew (Some 1),
                ET_LOG LogError ''Failed to create XNN workspace'' NoArg]\<rparr>)
   \<and> count_list (trace (snd (init (sample_env xnn_status_success xnn_status_success Ok)
         \<lparr>workspace = None\<rparr> sample_context (Some 2) [] sample_state)))
         (PlacementNew (Some 1)) = 1
   \<and> count_list (trace (snd (init (sample_env xnn_status_success xnn_status_success Ok)
         \<lparr>workspace = None\<rparr> sample_context (Some 2) [] sample_state)))
         (Destructor (Some 1)) = 0"
  by (simp add: init_def step_eqs sample_env_def sample_context_def sample_state_def Let_def)

subsection \<open>init without a workspace\<close>

text \<open>
  C3. The claim: on an adapter whose workspace is null, every \<open>init\<close> fails with
  \<open>Internal\<close> and never calls \<open>XNNCompiler::compileModel\<close>. As amended: on such an
  adapter \<open>init\<close> never returns a handle and never calls the compiler; the error is
  \<open>Internal\<close> on every call in which the allocator gave storage (the check of lines
  67-68), and the error fixed by the allocation macro of line 58 when the allocator
  answered \<open>nullptr\<close>, since that macro returns before the workspace is looked at.
\<close>

theorem init_workspace_absent:
  assumes "workspace this = None"
  shows "fst (init X this ctx processed compile_specs s) =
           (if fst (allocateInstance X (get_runtime_allocator ctx) (ext s)) = None
            then Inl (allocation_failed X) else Inl Internal)
         \<and> filter is_CompileModel
             (events_since s (snd (init X this ctx processed compile_specs s))) = []"
  using assms by (simp add: init_result init_events Let_def)

theorem init_workspace_absent_witness:
  "workspace \<lparr>workspace = None\<rparr> = None
   \<and> fst (init (sample_env xnn_status_success xnn_status_success Ok) \<lparr>workspace = None\<rparr>
          sample_context (Some 2) [] sample_state) = Inl Internal
   \<and> filter is_CompileModel
        (events_since sample_state
           (snd (init (sample_env xnn_status_success xnn_status_success Ok)
                   \<lparr>workspace = None\<rparr> sample_context (Some 2) [] sample_state))) = []"
  using init_workspace_absent [where this = "\<lparr>workspace = None\<rparr>"
      and X = "sample_env xnn_status_success xnn_status_success Ok"
      and ctx = sample_context and processed = "Some 2" and compile_specs = "[]"
      and s = sample_state]
  by (simp add: sample_env_def)

text \<open>
  The claim as worded fails where the workspace is null and the arena is exhausted: the
  macro of line 58 returns its own error (here code 33), not \<open>Internal\<close>.
\<close>

theorem init_workspace_absent_not_always_Internal:
  "workspace \<lparr>workspace = None\<rparr> = None
   \<and> init (exhausted (sample_env xnn_status_success xnn_status_success Ok))
       \<lparr>workspace = None\<rparr> sample_context (Some 2) [] sample_state =
       (Inl (OtherError 33), \<lparr>ext = 0, trace = [AllocateInstance (Some 1)]\<rparr>)
   \<and> fst (init (exhausted (sample_env xnn_status_success xnn_status_success Ok))
            \<lparr>workspace = None\<rparr> sample_context (Some 2) [] sample_state) \<noteq> Inl Internal"
  by (simp add: init_def step_eqs sample_env_def exhausted_def sample_context_def
      sample_state_def Let_def)

subsection \<open>A workspace that could not be created\<close>

text \<open>
  C4. The claim: when \<open>xnn_create_workspace\<close> fails in the constructor, the workspace
  stays absent for good and every later \<open>init\<close> on that adapter fails with \<open>Internal\<close>.
  As amended: when \<open>xnn_create_workspace\<close> fails in the constructor (lines 38-46), the
  adapter's workspace is null and stays null through every later sequence of method
  calls; no such call creates a workspace; and \<open>init\<close> on that adapter never returns a
  handle: it returns \<open>Internal\<close> from the check of line 67 whenever the allocator gave
  storage, and the error fixed by the allocation macro of line 58 when the allocator
  answered \<open>nullptr\<close>.
\<close>

theorem workspace_creation_failure_is_permanent:
  assumes "fst (xnn_initialize X (ext s)) = xnn_status_success"
    and "fst (fst (xnn_create_workspace X (workspace this0) (snd (xnn_initialize X (ext s)))))
           \<noteq> xnn_status_success"
    and "cls p = fst (XnnpackBackend_ctor X this0 s)"
  shows "workspace (cls (host_run X calls p)) = None
         \<and> Xnn_create_workspace \<notin> set (events_since (state p) (state (host_run X calls p)))
         \<and> fst (init X (cls (host_run X calls p)) ctx processed compile_specs
                  (state (host_run X calls p))) =
             (if fst (allocateInstance X (get_runtime_allocator ctx)
                        (ext (state (host_run X calls p)))) = None
              then Inl (allocation_failed X) else Inl Internal)"
proof -
  have absent: "workspace (cls (host_run X calls p)) = None"
    using assms by (simp add: cls_host_run ctor_workspace Let_def)
  have "Xnn_create_workspace \<notin> set (events_since (state p) (state (host_run X calls p)))"
    using host_run_events_since by (rule host_event_ok_no_create)
  with absent show ?thesis
    by (simp add: init_result Let_def)
qed

text \<open>
  The theorem at work on an adapter built over storage that held a stale pointer: once
  with an allocator that gives storage, once with an exhausted arena.
\<close>

theorem workspace_creation_failure_is_permanent_witness:
  "fst (xnn_initialize (sample_env xnn_status_success (xnn_status_other 6) Ok) (ext sample_state)) = xnn_status_success
   \<and> fst (fst (xnn_create_workspace (sample_env xnn_status_success (xnn_status_other 6) Ok) (workspace \<lparr>workspace = Some 77\<rparr>)
                (snd (xnn_initialize (sample_env xnn_status_success (xnn_status_other 6) Ok) (ext sample_state))))) \<noteq> xnn_status_success
   \<and> fst (init (sample_env xnn_status_success (xnn_status_other 6) Ok)
         (cls (host_run (sample_env xnn_status_success (xnn_status_other 6) Ok)
                 [IsAvailable, Init sample_context (Some 2) [], Destroy None]
                 \<lparr>cls = fst (XnnpackBackend_ctor (sample_env xnn_status_success (xnn_status_other 6) Ok) \<lparr>workspace = Some 77\<rparr> sample_state),
                  backend = \<lparr>backend_name = ''XnnpackBackend'', backend_interface = Some 5\<rparr>,
                  success_with_compiler = Ok,
                  state = snd (XnnpackBackend_ctor (sample_env xnn_status_success (xnn_status_other 6) Ok) \<lparr>workspace = Some 77\<rparr> sample_state)\<rparr>))
         sample_context (Some 3) []
         (state (host_run (sample_env xnn_status_success (xnn_status_other 6) Ok)
                 [IsAvailable, Init sample_context (Some 2) [], Destroy None]
                 \<lparr>cls = fst (XnnpackBackend_ctor (sample_env xnn_status_success (xnn_status_other 6) Ok) \<lparr>workspace = Some 77\<rparr> sample_state),
                  backend = \<lparr>backend_name = ''XnnpackBackend'', backend_interface = Some 5\<rparr>,
                  success_with_compiler = Ok,
                  state = snd (XnnpackBackend_ctor (sample_env xnn_status_success (xnn_status_other 6) Ok) \<lparr>workspace = Some 77\<rparr> sample_state)\<rparr>))) = Inl Internal
   \<and> fst (xnn_initialize (exhausted (sample_env xnn_status_success (xnn_status_other 6) Ok)) (ext sample_state)) = xnn_status_success
   \<and> fst (fst (xnn_create_workspace (exhausted (sample_env xnn_status_success (xnn_status_other 6) Ok)) (workspace \<lparr>workspace = Some 77\<rparr>)
                (snd (xnn_initialize (exhausted (sample_env xnn_status_success (xnn_status_other 6) Ok)) (ext sample_state))))) \<noteq> xnn_status_success
   \<and> fst (init (exhausted (sample_env xnn_status_success (xnn_status_other 6) Ok))
         (cls (host_run (exhausted (sample_env xnn_status_success (xnn_status_other 6) Ok))
                 [IsAvailable, Init sample_context (Some 2) [], Destroy None]
                 \<lparr>cls = fst (XnnpackBackend_ctor (exhausted (sample_env xnn_status_success (xnn_status_other 6) Ok)) \<lparr>workspace = Some 77\<rparr> sample_state),
                  backend = \<lparr>backend_name = ''XnnpackBackend'', backend_interface = Some 5\<rparr>,
                  success_with_compiler = Ok,
                  state = snd (XnnpackBackend_ctor (exhausted (sample_env xnn_status_success (xnn_status_other 6) Ok)) \<lparr>workspace = Some 77\<rparr> sample_state)\<rparr>))
         sample_context (Some 3) []
         (state (host_run (exhausted (sample_env xnn_status_success (xnn_status_other 6) Ok))
                 [IsAvailable, Init sample_context (Some 2) [], Destroy None]
                 \<lparr>cls = fst (XnnpackBackend_ctor (exhausted (sample_env xnn_status_success (xnn_status_other 6) Ok)) \<lparr>workspace = Some 77\<rparr> sample_state),
                  backend = \<lparr>backend_name = ''XnnpackBackend'', backend_interface = Some 5\<rparr>,
                  success_with_compiler = Ok,
                  state = snd (XnnpackBackend_ctor (exhausted (sample_env xnn_status_success (xnn_status_other 6) Ok)) \<lparr>workspace = Some 77\<rparr> sample_state)\<rparr>))) = Inl (OtherError 33)"
  using workspace_creation_failure_is_permanent
    [where X = "sample_env xnn_status_success (xnn_status_other 6) Ok"
       and s = sample_state and ?this0.0 = "\<lparr>workspace = Some 77\<rparr>"
       and p = "\<lparr>cls = fst (XnnpackBackend_ctor (sample_env xnn_status_success (xnn_status_other 6) Ok) \<lparr>workspace = Some 77\<rparr> sample_state),
                  backend = \<lparr>backend_name = ''XnnpackBackend'', backend_interface = Some 5\<rparr>,
                  success_with_compiler = Ok,
                  state = snd (XnnpackBackend_ctor (sample_env xnn_status_success (xnn_status_other 6) Ok) \<lparr>workspace = Some 77\<rparr> sample_state)\<rparr>"
       and calls = "[IsAvailable, Init sample_context (Some 2) [], Destroy None]"
       and ctx = sample_context and processed = "Some 3" and compile_specs = "[]"]
    workspace_creation_failure_is_permanent
    [where X = "exhausted (sample_env xnn_status_success (xnn_status_other 6) Ok)"
       and s = sample_state and ?this0.0 = "\<lparr>workspace = Some 77\<rparr>"
       and p = "\<lparr>cls = fst (XnnpackBackend_ctor (exhausted (sample_env xnn_status_success (xnn_status_other 6) Ok)) \<lparr>workspace = Some 77\<rparr> sample_state),
                  backend = \<lparr>backend_name = ''XnnpackBackend'', backend_interface = Some 5\<rparr>,
                  success_with_compiler = Ok,
                  state = snd (XnnpackBackend_ctor (exhausted (sample_env xnn_status_success (xnn_status_other 6) Ok)) \<lparr>workspace = Some 77\<rparr> sample_state)\<rparr>"
       and calls = "[IsAvailable, Init sample_context (Some 2) [], Destroy None]"
       and ctx = sample_context and processed = "Some 3" and compile_specs = "[]"]
  by (simp add: sample_env_def exhausted_def)

text \<open>
  The claim as worded fails on the adapter that registration builds when workspace
  creation fails and the arena is exhausted afterwards: \<open>init\<close> returns the allocation
  macro's error (here code 33), not \<open>Internal\<close>.
\<close>

theorem workspace_creation_failure_not_always_Internal:
  "workspace (cls (module_init (exhausted (sample_env xnn_status_success (xnn_status_other 6) Ok))
                     5 sample_state)) = None
   \<and> fst (init (exhausted (sample_env xnn_status_success (xnn_status_other 6) Ok))
            (cls (module_init (exhausted (sample_env xnn_status_success (xnn_status_other 6) Ok))
                    5 sample_state))
            sample_context (Some 2) []
            (state (module_init (exhausted (sample_env xnn_status_success (xnn_status_other 6) Ok))
                      5 sample_state))) = Inl (OtherError 33)
   \<and> fst (init (exhausted (sample_env xnn_status_success (xnn_status_other 6) Ok))
            (cls (module_init (exhausted (sample_env xnn_status_success (xnn_status_other 6) Ok))
                    5 sample_state))
            sample_context (Some 2) []
            (state (module_init (exhausted (sample_env xnn_status_success (xnn_status_other 6) Ok))
                      5 sample_state))) \<noteq> Inl Internal"
  by (simp add: module_init_def XnnpackBackend_ctor_def init_def step_eqs sample_env_def
      exhausted_def sample_context_def sample_state_def Let_def)

subsection \<open>execute\<close>

text \<open>
  C5. \<open>execute\<close> runs \<open>prepare_args\<close>, then \<open>forward\<close>, then \<open>resize_outputs\<close>, each on
  the state the previous one left. The first one that does not return \<open>Ok\<close> ends the
  call: its error is returned as it is and the later steps are not called. When the first
  two return \<open>Ok\<close>, the result is the result of \<open>resize_outputs\<close>.
\<close>

theorem execute_three_steps:
  "let r1 = prepare_args X handle args (ext s);
       r2 = forward X handle ctx (snd r1);
       r3 = resize_outputs X handle args (snd r2);
       res = execute X this ctx handle args s
   in if fst r1 \<noteq> Ok then
        fst res = fst r1 \<and> ext (snd res) = snd r1 \<and>
        events_since s (snd res) = [PrepareArgs handle args]
      else if fst r2 \<noteq> Ok then
        fst res = fst r2 \<and> ext (snd res) = snd r2 \<and>
        events_since s (snd res) = [PrepareArgs handle args, Forward handle ctx]
      else
        fst res = fst r3 \<and> ext (snd res) = snd r3 \<and>
        events_since s (snd res) =
          [PrepareArgs handle args, Forward handle ctx, ResizeOutputs handle args]"
  by (simp add: execute_def step_eqs events_since_def Let_def)

theorem execute_three_steps_witness:
  "execute ((sample_env xnn_status_success xnn_status_success Ok)
              \<lparr>forward := (\<lambda>ex c e. (OtherError 18, e + 10))\<rparr>)
     \<lparr>workspace = Some 100\<rparr> (Some 4) (Some 1) (Some 9) sample_state =
     (OtherError 18, \<lparr>ext = 10, trace = [PrepareArgs (Some 1) (Some 9), Forward (Some 1) (Some 4)]\<rparr>)"
  using execute_three_steps
    [where X = "(sample_env xnn_status_success xnn_status_success Ok)
                  \<lparr>forward := (\<lambda>ex c e. (OtherError 18, e + 10))\<rparr>"
       and this = "\<lparr>workspace = Some 100\<rparr>" and ctx = "Some 4" and handle = "Some 1"
       and args = "Some 9" and s = sample_state]
  by (simp add: sample_env_def sample_state_def execute_def step_eqs Let_def)

subsection \<open>destroy\<close>

text \<open>
  C6. \<open>destroy\<close> with a null handle returns the state as it was: no call is made. With a
  non-null handle it calls the destructor of the executor exactly once (after
  \<open>print_avg_op_timings\<close> when profiling is compiled in) and makes no other call: the
  allocator is not called, the storage of the handle is left to the arena.
\<close>

theorem destroy_null_and_live:
  "destroy X this None s = s
   \<and> events_since s (destroy X this (Some a) s) =
       (if ENABLE_XNNPACK_PROFILING X then [PrintAvgOpTimings (Some a)] else [])
         @ [Destructor (Some a)]
   \<and> count_list (events_since s (destroy X this (Some a) s)) (Destructor (Some a)) = 1
   \<and> ext (destroy X this (Some a) s) =
       XNNExecutor_delete X (Some a)
         (if ENABLE_XNNPACK_PROFILING X then print_avg_op_timings X (Some a) (ext s) else ext s)"
  by (simp add: destroy_def step_eqs events_since_def Let_def)

theorem destroy_null_and_live_witness:
  "destroy (sample_env xnn_status_success xnn_status_success Ok) \<lparr>workspace = Some 100\<rparr>
     None sample_state = sample_state
   \<and> destroy (sample_env xnn_status_success xnn_status_success Ok) \<lparr>workspace = Some 100\<rparr>
       (Some 1) sample_state = \<lparr>ext = 0, trace = [Destructor (Some 1)]\<rparr>
   \<and> destroy ((sample_env xnn_status_success xnn_status_success Ok)
                \<lparr>ENABLE_XNNPACK_PROFILING := True\<rparr>) \<lparr>workspace = Some 100\<rparr>
       (Some 1) sample_state =
       \<lparr>ext = 0, trace = [PrintAvgOpTimings (Some 1), Destructor (Some 1)]\<rparr>"
  using destroy_null_and_live
    [where X = "sample_env xnn_status_success xnn_status_success Ok"
       and this = "\<lparr>workspace = Some 100\<rparr>" and s = sample_state and a = 1]
  by (simp add: destroy_def step_eqs sample_env_def sample_state_def Let_def)

subsection \<open>is_available\<close>

text \<open>
  C7. When \<open>xnn_initialize\<close> does not return \<open>xnn_status_success\<close>, \<open>is_available\<close>
  returns \<open>false\<close>. The method has no other exit: it makes the one library call and
  returns the comparison.
\<close>

theorem is_available_false_on_failure:
  assumes "fst (xnn_initialize X (ext s)) \<noteq> xnn_status_success"
  shows "is_available X this s =
           (False, \<lparr>ext = snd (xnn_initialize X (ext s)), trace = trace s @ [Xnn_initialize]\<rparr>)"
  using assms by (auto simp add: is_available_def step_eqs)

theorem is_available_false_on_failure_witness:
  "fst (xnn_initialize (sample_env (xnn_status_other 5) xnn_status_success Ok) (ext sample_state))
     \<noteq> xnn_status_success
   \<and> is_available (sample_env (xnn_status_other 5) xnn_status_success Ok)
        \<lparr>workspace = None\<rparr> sample_state = (False, \<lparr>ext = 0, trace = [Xnn_initialize]\<rparr>)"
  using is_available_false_on_failure
    [where X = "sample_env (xnn_status_other 5) xnn_status_success Ok" and s = sample_state
       and this = "\<lparr>workspace = None\<rparr>"]
  by (simp add: sample_env_def sample_state_def)

subsection \<open>Registration\<close>

lemma module_init_fields:
  "cls (module_init X cls_addr s) = fst (XnnpackBackend_ctor X \<lparr>workspace = None\<rparr> s)
   \<and> backend (module_init X cls_addr s) =
       \<lparr>backend_name = ''XnnpackBackend'', backend_interface = Some cls_addr\<rparr>
   \<and> trace (state (module_init X cls_addr s)) =
       trace (snd (XnnpackBackend_ctor X \<lparr>workspace = None\<rparr> s))
         @ [RegisterBackend \<lparr>backend_name = ''XnnpackBackend'', backend_interface = Some cls_addr\<rparr>]"
  by (simp add: module_init_def step_eqs case_prod_beta Let_def)




subsection \<open>The workspace field\<close>

text \<open>
  C9. Only the constructor writes \<open>workspace_\<close>. After any sequence of \<open>is_available\<close>,
  \<open>init\<close>, \<open>execute\<close> and \<open>destroy\<close> calls the adapter is the one it was; every compiler
  call made on the way was given that adapter's workspace; no call created a workspace
  and no call released one: every call made is one of the calls listed by
  \<open>host_event_ok\<close>. Destroying the adapter itself calls nothing either.
\<close>

theorem workspace_frame:
  "cls (host_run X calls p) = cls p
   \<and> (\<forall>d n ex a ws.
         CompileModel d n ex a ws \<in> set (events_since (state p) (state (host_run X calls p)))
           \<longrightarrow> ws = workspace (cls p))
   \<and> Xnn_create_workspace \<notin> set (events_since (state p) (state (host_run X calls p)))
   \<and> (\<forall>ws. Xnn_release_workspace ws
              \<notin> set (events_since (state p) (state (host_run X calls p))))
   \<and> list_all (host_event_ok (workspace (cls p)))
        (events_since (state p) (state (host_run X calls p)))
   \<and> events_since (state (host_run X calls p))
        (XnnpackBackend_dtor X (cls (host_run X calls p)) (state (host_run X calls p))) = []"
proof -
  have ok: "list_all (host_event_ok (workspace (cls p)))
              (events_since (state p) (state (host_run X calls p)))"
    by (rule host_run_events_since)
  from ok have "Xnn_create_workspace \<notin> set (events_since (state p) (state (host_run X calls p)))"
    by (rule host_event_ok_no_create)
  moreover from ok have "\<forall>d n ex a ws.
      CompileModel d n ex a ws \<in> set (events_since (state p) (state (host_run X calls p)))
        \<longrightarrow> ws = workspace (cls p)"
    using host_event_ok_compile by blast
  moreover from ok have "\<forall>ws. Xnn_release_workspace ws
      \<notin> set (events_since (state p) (state (host_run X calls p)))"
    using host_event_ok_no_release by blast
  ultimately show ?thesis
    using ok by (simp add: cls_host_run XnnpackBackend_dtor_def events_since_def)
qed

theorem workspace_frame_witness:
  "cls (host_run (sample_env xnn_status_success xnn_status_success Ok)
          [Init sample_context (Some 2) [], Execute (Some 4) (Some 1) (Some 9),
           Init sample_context (Some 3) [], Destroy (Some 1)]
          (module_init (sample_env xnn_status_success xnn_status_success Ok) 5 sample_state)) =
     \<lparr>workspace = Some 100\<rparr>
   \<and> events_since
       (state (module_init (sample_env xnn_status_success xnn_status_success Ok) 5 sample_state))
       (state (host_run (sample_env xnn_status_success xnn_status_success Ok)
          [Init sample_context (Some 2) [], Execute (Some 4) (Some 1) (Some 9),
           Init sample_context (Some 3) [], Destroy (Some 1)]
          (module_init (sample_env xnn_status_success xnn_status_success Ok) 5 sample_state))) =
       [AllocateInstance (Some 1), PlacementNew (Some 1),
        CompileModel (Some 7) 16 (Some 1) (Some 1) (Some 100), Free (Some 2),
        PrepareArgs (Some 1) (Some 9), Forward (Some 1) (Some 4),
        ResizeOutputs (Some 1) (Some 9),
        AllocateInstance (Some 1), PlacementNew (Some 2),
        CompileModel (Some 7) 16 (Some 2) (Some 1) (Some 100), Free (Some 3),
        Destructor (Some 1)]"
  using workspace_frame
    [where X = "sample_env xnn_status_success xnn_status_success Ok"
       and p = "module_init (sample_env xnn_status_success xnn_status_success Ok) 5 sample_state"
       and calls = "[Init sample_context (Some 2) [], Execute (Some 4) (Some 1) (Some 9),
                     Init sample_context (Some 3) [], Destroy (Some 1)]"]
  by (simp add: host_run_def module_init_def XnnpackBackend_ctor_def init_def execute_def
      destroy_def step_eqs events_since_def sample_env_def sample_state_def sample_context_def
      Let_def)

subsection \<open>Availability and the workspace\<close>

text \<open>
  C10. \<open>is_available\<close> calls \<open>xnn_initialize\<close> on every call and returns whether it
  succeeded; the adapter's workspace is not read. So an adapter built where the library
  initializes and the workspace cannot be created answers \<open>true\<close> to \<open>is_available\<close>,
  while every \<open>init\<close> on it fails, whatever was called before.
\<close>

theorem is_available_ignores_workspace:
  "fst (is_available X this s) = (fst (xnn_initialize X (ext s)) = xnn_status_success)
   \<and> events_since s (snd (is_available X this s)) = [Xnn_initialize]
   \<and> (let X0 = sample_env xnn_status_success (xnn_status_other 6) Ok;
           p = host_run X0 calls (module_init X0 5 sample_state)
       in workspace (cls p) = None
          \<and> fst (is_available X0 (cls p) (state p)) = True
          \<and> fst (init X0 (cls p) ctx processed compile_specs (state p)) = Inl Internal)"
proof -
  let ?X0 = "sample_env xnn_status_success (xnn_status_other 6) Ok"
  let ?p = "host_run ?X0 calls (module_init ?X0 5 sample_state)"
  have absent: "workspace (cls ?p) = None"
    by (simp add: cls_host_run module_init_fields ctor_workspace Let_def sample_env_def)
  have avail: "fst (is_available ?X0 (cls ?p) (state ?p)) = True"
    by (simp add: is_available_result sample_env_def)
  have "fst (init ?X0 (cls ?p) ctx processed compile_specs (state ?p)) = Inl Internal"
    using absent by (simp add: init_result Let_def sample_env_def)
  with absent avail show ?thesis
    by (simp add: is_available_result is_available_state events_since_def Let_def)
qed

theorem is_available_ignores_workspace_witness:
  "is_available (sample_env xnn_status_success (xnn_status_other 6) Ok)
     (cls (module_init (sample_env xnn_status_success (xnn_status_other 6) Ok) 5 sample_state))
     (state (module_init (sample_env xnn_status_success (xnn_status_other 6) Ok) 5 sample_state)) =
     (True,
      \<lparr>ext = 0,
       trace = [Xnn_initialize, Xnn_create_workspace,
                ET_LOG LogError ''Failed to create XNN workspace, XNNPACK status: 0x%x''
                  (StatusArg (xnn_status_other 6)),
                RegisterBackend \<lparr>backend_name = ''XnnpackBackend'', backend_interface = Some 5\<rparr>,
                Xnn_initialize]\<rparr>)
   \<and> fst (init (sample_env xnn_status_success (xnn_status_other 6) Ok)
       (cls (module_init (sample_env xnn_status_success (xnn_status_other 6) Ok) 5 sample_state))
       sample_context (Some 2) []
       (state (module_init (sample_env xnn_status_success (xnn_status_other 6) Ok) 5
                 sample_state))) = Inl Internal"
  using is_available_ignores_workspace
    [where X = "sample_env xnn_status_success (xnn_status_other 6) Ok"
       and this = "cls (module_init (sample_env xnn_status_success (xnn_status_other 6) Ok) 5
                          sample_state)"
       and s = "state (module_init (sample_env xnn_status_success (xnn_status_other 6) Ok) 5
                         sample_state)"
       and calls = "[]" and ctx = sample_context and processed = "Some 2"
       and compile_specs = "[]"]
  by (simp add: host_run_def module_init_def XnnpackBackend_ctor_def is_available_def
      step_eqs sample_env_def sample_state_def Let_def)

end
